theory Spec2Isabelle
  imports Complex_Main "HOL-Library.AList"
begin

section \<open>The review dashboard \<^verbatim>\<open>app.py\<close> as a functional program\<close>

text \<open>
  The script is one straight-line run per upload: it loads a table, adds a polarity score
  and a sentiment label to every row, computes summary metrics and hands tables and charts
  to the page. The embedding keeps that shape. A run is a list of the widgets rendered so
  far together with either the exception that ended the script or its result.

  Numbers: a Python float is modelled by the exact rational it is meant to denote, so
  \<open>0.1\<close> is \<open>1/10\<close>, and \<open>nan\<close> is a value of its own. Binary rounding error of the
  float operations is outside the model, with one exception that is visible in the
  output: when a value lies exactly halfway between two roundings, the script's result
  depends on the binary value of the float, so the direction of such a tie is a parameter.

  Collaborators that are not part of the script are parameters (\<open>env\<close>): the CSV
  parser, the polarity scorer of the text library, Python's \<open>str\<close> on numbers and
  timestamps, the calendar month of a timestamp, and the direction of rounding ties.
\<close>

subsection \<open>Tables\<close>

datatype error =
  EmptyDataError | ParserError | KeyError string | TypeError | ValueError | AttributeError

text \<open>
  A cell of a table read from a CSV file is a number, a string or missing (\<open>NaN\<close>);
  \<open>Stamp\<close> and \<open>NaT\<close> are the cells of a datetime column, made by \<open>to_datetime\<close>.
\<close>

datatype cell = Num rat | Str string | NaN | Stamp rat | NaT

type_synonym series = "cell list"

record dataframe =
  nrows :: nat
  columns :: "(string \<times> series) list"

text \<open>Every column of a frame has one cell per row.\<close>

definition wf_frame :: "dataframe \<Rightarrow> bool" where
  "wf_frame df = list_all (\<lambda>c. length (snd c) = nrows df) (columns df)"

text \<open>\<open>name in df.columns\<close>\<close>

definition has_column :: "dataframe \<Rightarrow> string \<Rightarrow> bool" where
  "has_column df name = (name \<in> set (map fst (columns df)))"

text \<open>\<open>df[name]\<close>: the column, or \<open>KeyError\<close>.\<close>

definition getitem :: "dataframe \<Rightarrow> string \<Rightarrow> error + series" where
  "getitem df name =
     (case map_of (columns df) name of
        None \<Rightarrow> Inl (KeyError name)
      | Some s \<Rightarrow> Inr s)"

text \<open>\<open>df[name] = s\<close>: replaces the column in place, or appends a new last column.\<close>

definition setitem :: "dataframe \<Rightarrow> string \<Rightarrow> series \<Rightarrow> dataframe" where
  "setitem df name s = df\<lparr>columns := AList.update name s (columns df)\<rparr>"

text \<open>\<open>df.head(n)\<close>\<close>

definition head :: "nat \<Rightarrow> dataframe \<Rightarrow> dataframe" where
  "head n df =
     \<lparr>nrows = min n (nrows df),
      columns = map (\<lambda>c. (fst c, take n (snd c))) (columns df)\<rparr>"

text \<open>\<open>df[[n1, n2, ...]]\<close>: the named columns in the order asked for; \<open>KeyError\<close> at the
  first name that is no column.\<close>

fun select_columns :: "dataframe \<Rightarrow> string list \<Rightarrow> error + (string \<times> series) list" where
  "select_columns df [] = Inr []"
| "select_columns df (n # ns) =
     (case getitem df n of
        Inl e \<Rightarrow> Inl e
      | Inr s \<Rightarrow>
          (case select_columns df ns of
             Inl e \<Rightarrow> Inl e
           | Inr cs \<Rightarrow> Inr ((n, s) # cs)))"

definition getitems :: "dataframe \<Rightarrow> string list \<Rightarrow> error + dataframe" where
  "getitems df names =
     (case select_columns df names of
        Inl e \<Rightarrow> Inl e
      | Inr cs \<Rightarrow> Inr \<lparr>nrows = nrows df, columns = cs\<rparr>)"

subsection \<open>Library operations on columns\<close>

record env =
  read_csv :: "string \<Rightarrow> error + dataframe"
  polarity :: "string \<Rightarrow> rat"
  str_num :: "rat \<Rightarrow> string"
  str_stamp :: "rat \<Rightarrow> string"
  period_M :: "rat \<Rightarrow> int"
  ties_up :: "nat \<Rightarrow> rat \<Rightarrow> bool"

text \<open>
  \<open>pd.read_csv(uploaded_file)\<close>: a file without any byte has no columns to parse and is
  refused; every other file is the parser's.
\<close>

definition pd_read_csv :: "env \<Rightarrow> string \<Rightarrow> error + dataframe" where
  "pd_read_csv env file = (if file = [] then Inl EmptyDataError else read_csv env file)"

text \<open>\<open>str(x)\<close> on a cell: a string is itself, a missing value is the text \<open>nan\<close>.\<close>

fun py_str :: "env \<Rightarrow> cell \<Rightarrow> string" where
  "py_str env (Str s) = s"
| "py_str env NaN = ''nan''"
| "py_str env (Num q) = str_num env q"
| "py_str env (Stamp t) = str_stamp env t"
| "py_str env NaT = ''NaT''"

text \<open>
  \<open>pd.to_datetime(s, unit='s')\<close>: a number of seconds becomes a timestamp when it fits
  the nanosecond range of 64 bits, a missing value becomes \<open>NaT\<close>, and a string that is
  not a number is refused (an object column read from a CSV file holds such strings).
\<close>

fun to_datetime_cell :: "cell \<Rightarrow> error + cell" where
  "to_datetime_cell (Num q) =
     (if \<bar>q\<bar> * 10 ^ 9 \<le> 2 ^ 63 - 1 then Inr (Stamp q) else Inl ValueError)"
| "to_datetime_cell NaN = Inr NaT"
| "to_datetime_cell (Str s) = Inl ValueError"
| "to_datetime_cell (Stamp t) = Inr (Stamp t)"
| "to_datetime_cell NaT = Inr NaT"

fun to_datetime :: "series \<Rightarrow> error + series" where
  "to_datetime [] = Inr []"
| "to_datetime (c # cs) =
     (case to_datetime_cell c of
        Inl e \<Rightarrow> Inl e
      | Inr d \<Rightarrow> (case to_datetime cs of Inl e \<Rightarrow> Inl e | Inr ds \<Rightarrow> Inr (d # ds)))"

text \<open>\<open>s.unique()\<close>: the distinct values in order of first appearance.\<close>

definition unique :: "'a list \<Rightarrow> 'a list" where
  "unique xs = rev (remdups (rev xs))"

text \<open>
  \<open>s.value_counts()\<close>: missing values are dropped; one entry per distinct value with the
  number of its occurrences, largest count first, equal counts in order of first appearance.
\<close>

definition dropna :: "series \<Rightarrow> series" where
  "dropna s = filter (\<lambda>c. c \<noteq> NaN \<and> c \<noteq> NaT) s"

definition sort_desc :: "('a \<times> nat) list \<Rightarrow> ('a \<times> nat) list" where
  "sort_desc cs = sort_key (\<lambda>p. - int (snd p)) cs"

definition value_counts :: "series \<Rightarrow> (cell \<times> nat) list" where
  "value_counts s =
     (let xs = dropna s
      in sort_desc (map (\<lambda>v. (v, count_list xs v)) (unique xs)))"

text \<open>\<open>counts.nlargest(n)\<close>: the \<open>n\<close> largest entries, largest first, ties in the order
  they have in \<open>counts\<close>.\<close>

definition nlargest :: "nat \<Rightarrow> ('a \<times> nat) list \<Rightarrow> ('a \<times> nat) list" where
  "nlargest n cs = take n (sort_desc cs)"

text \<open>\<open>counts.get(key, default)\<close>\<close>

definition series_get :: "('a \<times> 'b) list \<Rightarrow> 'a \<Rightarrow> 'b \<Rightarrow> 'b" where
  "series_get cs k d = (case map_of cs k of None \<Rightarrow> d | Some v \<Rightarrow> v)"

text \<open>A float result: a number or \<open>nan\<close>.\<close>

datatype pyfloat = Finite rat | Nan

text \<open>
  \<open>s.mean()\<close>: missing values are skipped; the mean of no values is \<open>nan\<close>; a column that
  holds strings has no mean.
\<close>

fun numbers :: "series \<Rightarrow> rat list" where
  "numbers [] = []"
| "numbers (Num q # cs) = q # numbers cs"
| "numbers (c # cs) = numbers cs"

fun numeric :: "cell \<Rightarrow> bool" where
  "numeric (Num q) = True"
| "numeric NaN = True"
| "numeric c = False"

definition mean :: "series \<Rightarrow> error + pyfloat" where
  "mean s =
     (if list_ex (\<lambda>c. \<not> numeric c) s then Inl TypeError
      else (let xs = numbers s
            in if xs = [] then Inr Nan
               else Inr (Finite (sum_list xs / of_nat (length xs)))))"

text \<open>
  Rounding to \<open>d\<close> decimals as numpy does it (\<open>round(x, 2)\<close> on a numpy float and
  \<open>Series.round(1)\<close>): scale by \<open>10 ^ d\<close>, round to the nearest integer, scale back.
  The script scales the binary float, and the product of a value that is a decimal tie
  may land on either side of the half: the mean \<open>49/40 = 1.225\<close> is scaled to
  \<open>122.50000000000001\<close> and rounds to \<open>1.23\<close>, while \<open>0.125\<close> is scaled to \<open>12.5\<close>
  exactly and rounds to the even \<open>0.12\<close>. So \<open>rint\<close> takes the direction of a tie as
  an argument, and \<open>round_nd\<close> asks \<open>ties_up\<close> for it; off a tie the nearest integer
  is taken.
\<close>

definition rint :: "bool \<Rightarrow> rat \<Rightarrow> int" where
  "rint up x =
     (let f = \<lfloor>x\<rfloor>; r = x - of_int f
      in if r < 1 / 2 then f
         else if 1 / 2 < r then f + 1
         else if up then f + 1 else f)"

definition round_nd :: "env \<Rightarrow> nat \<Rightarrow> rat \<Rightarrow> rat" where
  "round_nd env d x = of_int (rint (ties_up env d x) (x * 10 ^ d)) / 10 ^ d"

fun py_round :: "env \<Rightarrow> pyfloat \<Rightarrow> nat \<Rightarrow> pyfloat" where
  "py_round env (Finite q) d = Finite (round_nd env d q)"
| "py_round env Nan d = Nan"

subsection \<open>Sentiment annotation (lines 38 to 42)\<close>

text \<open>\<open>lambda x: 'Positive' if x > 0.1 else ('Negative' if x < -0.1 else 'Neutral')\<close>\<close>

definition sentiment_label :: "rat \<Rightarrow> string" where
  "sentiment_label x =
     (if x > 1 / 10 then ''Positive''
      else (if x < - (1 / 10) then ''Negative'' else ''Neutral''))"

text \<open>\<open>lambda x: TextBlob(str(x)).sentiment.polarity\<close>\<close>

definition sentiment_score :: "env \<Rightarrow> cell \<Rightarrow> rat" where
  "sentiment_score env x = polarity env (py_str env x)"

definition annotate :: "env \<Rightarrow> dataframe \<Rightarrow> error + dataframe" where
  "annotate env df =
     (case getitem df ''Text'' of
        Inl e \<Rightarrow> Inl e
      | Inr texts \<Rightarrow>
          (let scores = map (sentiment_score env) texts;
               df1 = setitem df ''sentiment_score'' (map Num scores);
               labels = map sentiment_label scores
           in Inr (setitem df1 ''sentiment'' (map Str labels))))"

subsection \<open>Summary metrics (lines 49 to 52)\<close>

record metrics =
  total_reviews :: nat
  avg_rating :: pyfloat
  sentiment_counts :: "(cell \<times> nat) list"
  sentiment_pct :: "(cell \<times> rat) list"

text \<open>\<open>(sentiment_counts / total_reviews * 100).round(1)\<close>, entry by entry. The division
  is never by zero on a frame: a label that is counted belongs to a row.\<close>

definition percentages :: "env \<Rightarrow> (cell \<times> nat) list \<Rightarrow> nat \<Rightarrow> (cell \<times> rat) list" where
  "percentages env counts n =
     map (\<lambda>p. (fst p, round_nd env 1 (of_nat (snd p) / of_nat n * 100))) counts"

definition summary_metrics :: "env \<Rightarrow> dataframe \<Rightarrow> error + metrics" where
  "summary_metrics env df =
     (let n = nrows df
      in case getitem df ''Score'' of
           Inl e \<Rightarrow> Inl e
         | Inr score \<Rightarrow>
             (case mean score of
                Inl e \<Rightarrow> Inl e
              | Inr m \<Rightarrow>
                  (case getitem df ''sentiment'' of
                     Inl e \<Rightarrow> Inl e
                   | Inr sent \<Rightarrow>
                       (let counts = value_counts sent
                        in Inr \<lparr>total_reviews = n,
                                avg_rating = py_round env m 2,
                                sentiment_counts = counts,
                                sentiment_pct = percentages env counts n\<rparr>))))"

subsection \<open>Aggregates for the charts\<close>

text \<open>
  \<open>df.groupby([df['date'].dt.to_period('M'), 'sentiment']).size().unstack(fill_value=0)\<close>:
  one line per month that has a dated review, months ascending, and in it the number of
  reviews of each label that occurs, \<open>0\<close> where a month has none. Rows without a date
  belong to no group.
\<close>

fun dated :: "env \<Rightarrow> (cell \<times> cell) list \<Rightarrow> (int \<times> cell) list" where
  "dated env [] = []"
| "dated env ((Stamp t, s) # rs) = (period_M env t, s) # dated env rs"
| "dated env (r # rs) = dated env rs"

definition trend :: "env \<Rightarrow> series \<Rightarrow> series \<Rightarrow> (int \<times> (string \<times> nat) list) list" where
  "trend env dates sents =
     (let keys = dated env (zip dates sents);
          months = sort (remdups (map fst keys));
          labels = filter (\<lambda>l. Str l \<in> set (map snd keys))
                     [''Negative'', ''Neutral'', ''Positive'']
      in map (\<lambda>m. (m, map (\<lambda>l. (l, count_list keys (m, Str l))) labels)) months)"

text \<open>\<open>df['ProfileName'].value_counts().nlargest(10)\<close>\<close>

definition top_users :: "dataframe \<Rightarrow> error + (cell \<times> nat) list" where
  "top_users df =
     (case getitem df ''ProfileName'' of
        Inl e \<Rightarrow> Inl e
      | Inr names \<Rightarrow> Inr (nlargest 10 (value_counts names)))"

text \<open>\<open>df[['Summary', 'Text', 'sentiment', 'Score', 'date']].head(10)\<close>\<close>

definition recent_reviews :: "dataframe \<Rightarrow> error + dataframe" where
  "recent_reviews df =
     (case getitems df [''Summary'', ''Text'', ''sentiment'', ''Score'', ''date''] of
        Inl e \<Rightarrow> Inl e
      | Inr t \<Rightarrow> Inr (head 10 t))"

subsection \<open>The page\<close>

datatype message = Loaded nat | Analyzing | NoTimeColumn | UploadPrompt

datatype metric_value = Count nat | Mean pyfloat | Percent rat

datatype widget =
    Title
  | SidebarHeader
  | FileUploader
  | Success message
  | DataPreview dataframe
  | Info message
  | Subheader
  | Metric string metric_value
  | Rule
  | PieChart "(cell \<times> nat) list"
  | Histogram "(cell \<times> cell) list"
  | Caption
  | RecentTable dataframe
  | LineChart "(int \<times> (string \<times> nat) list) list"
  | BarChart "(cell \<times> nat) list"

text \<open>
  A run of (a part of) the script: the widgets it has rendered, and the exception that
  stopped it or the value it returned. A later part runs only when the earlier one
  returned, and its widgets follow the earlier ones.
\<close>

type_synonym 'a run = "widget list \<times> (error + 'a)"

definition render :: "widget \<Rightarrow> unit run" where
  "render w = ([w], Inr ())"

definition compute :: "error + 'a \<Rightarrow> 'a run" where
  "compute r = ([], r)"

definition and_then :: "'a run \<Rightarrow> ('a \<Rightarrow> 'b run) \<Rightarrow> 'b run" where
  "and_then m f =
     (case m of
        (ws, Inl e) \<Rightarrow> (ws, Inl e)
      | (ws, Inr a) \<Rightarrow> (case f a of (ws', r) \<Rightarrow> (ws @ ws', r)))"

text \<open>Lines 27 to 35: the loaded table, its preview, and the date column.\<close>

definition convert_time :: "dataframe \<Rightarrow> error + dataframe" where
  "convert_time df =
     (if has_column df ''Time'' then
        (case getitem df ''Time'' of
           Inl e \<Rightarrow> Inl e
         | Inr t \<Rightarrow>
             (case to_datetime t of
                Inl e \<Rightarrow> Inl e
              | Inr d \<Rightarrow> Inr (setitem df ''date'' d)))
      else Inr df)"

definition load :: "dataframe \<Rightarrow> dataframe run" where
  "load df =
     and_then (render (Success (Loaded (nrows df)))) (\<lambda>_.
     and_then (render (DataPreview (head 10 df))) (\<lambda>_.
     compute (convert_time df)))"

text \<open>Lines 38 to 42.\<close>

definition analyze :: "env \<Rightarrow> dataframe \<Rightarrow> dataframe run" where
  "analyze env df =
     and_then (render (Info Analyzing)) (\<lambda>_.
     compute (annotate env df))"

text \<open>Lines 47 to 58.\<close>

definition show_metrics :: "env \<Rightarrow> dataframe \<Rightarrow> metrics run" where
  "show_metrics env df =
     and_then (render Subheader) (\<lambda>_.
     and_then (compute (summary_metrics env df)) (\<lambda>m.
     and_then (render (Metric ''Total Reviews'' (Count (total_reviews m)))) (\<lambda>_.
     and_then (render (Metric ''Average Rating'' (Mean (avg_rating m)))) (\<lambda>_.
     and_then (render (Metric ''Positive (%)''
                 (Percent (series_get (sentiment_pct m) (Str ''Positive'') 0)))) (\<lambda>_.
     and_then (render (Metric ''Negative (%)''
                 (Percent (series_get (sentiment_pct m) (Str ''Negative'') 0)))) (\<lambda>_.
     compute (Inr m)))))))"

text \<open>Lines 63 to 92.\<close>

definition show_breakdown :: "dataframe \<Rightarrow> metrics \<Rightarrow> unit run" where
  "show_breakdown df m =
     and_then (render Rule) (\<lambda>_.
     and_then (render (PieChart (sentiment_counts m))) (\<lambda>_.
     and_then (compute (getitem df ''Score'')) (\<lambda>score.
     and_then (compute (getitem df ''sentiment'')) (\<lambda>sent.
     and_then (render (Histogram (zip score sent))) (\<lambda>_.
     and_then (render Caption) (\<lambda>_.
     and_then (compute (recent_reviews df)) (\<lambda>t.
     render (RecentTable t))))))))"

text \<open>
  \<open>px.line(trend, x=trend.index, y=trend.columns, ...)\<close> (line 105): a trend table
  without any month, which is what the grouping gives when no row has a date, has no
  column to plot, and the call raises \<open>ValueError\<close>.
\<close>

definition px_line ::
  "(int \<times> (string \<times> nat) list) list \<Rightarrow> error + (int \<times> (string \<times> nat) list) list" where
  "px_line t = (if t = [] then Inl ValueError else Inr t)"

text \<open>
  Lines 97 to 126. The \<open>.dt\<close> accessor exists on a datetime column only: the date
  column is one exactly when line 35 made it, that is when the upload has a \<open>Time\<close>
  column (\<open>uploaded\<close> is the table as it was loaded).
\<close>

definition show_trend :: "env \<Rightarrow> dataframe \<Rightarrow> dataframe \<Rightarrow> unit run" where
  "show_trend env uploaded df =
     (if has_column df ''date'' then
        and_then (compute (getitem df ''date'')) (\<lambda>dates.
        and_then (compute (if has_column uploaded ''Time'' then Inr dates
                           else Inl AttributeError)) (\<lambda>dates.
        and_then (compute (getitem df ''sentiment'')) (\<lambda>sent.
        and_then (compute (px_line (trend env dates sent))) (\<lambda>fig.
        render (LineChart fig)))))
      else render (Info NoTimeColumn))"

definition show_top_users :: "dataframe \<Rightarrow> unit run" where
  "show_top_users df =
     and_then (compute (top_users df)) (\<lambda>top.
     render (BarChart top))"

definition show_trends :: "env \<Rightarrow> dataframe \<Rightarrow> dataframe \<Rightarrow> unit run" where
  "show_trends env uploaded df =
     and_then (render Rule) (\<lambda>_.
     and_then (show_trend env uploaded df) (\<lambda>_.
     show_top_users df))"

text \<open>Lines 27 to 126 on the parsed table.\<close>

definition dashboard :: "env \<Rightarrow> dataframe \<Rightarrow> unit run" where
  "dashboard env uploaded =
     and_then (load uploaded) (\<lambda>df.
     and_then (analyze env df) (\<lambda>df.
     and_then (show_metrics env df) (\<lambda>m.
     and_then (show_breakdown df m) (\<lambda>_.
     show_trends env uploaded df))))"

text \<open>The whole script; \<open>None\<close> is the page before a file is uploaded.\<close>

definition app :: "env \<Rightarrow> string option \<Rightarrow> unit run" where
  "app env uploaded_file =
     and_then (render Title) (\<lambda>_.
     and_then (render SidebarHeader) (\<lambda>_.
     and_then (render FileUploader) (\<lambda>_.
     (case uploaded_file of
        Some file \<Rightarrow> and_then (compute (pd_read_csv env file)) (dashboard env)
      | None \<Rightarrow> render (Info UploadPrompt)))))"

subsection \<open>Sample uploads\<close>

text \<open>
  Three tables to run the script on: three reviews without a \<open>Time\<close> column, eleven
  reviews in ascending order of time, and a file that has a header line and no data row.
  The sample scorer knows two texts and rates every other text \<open>0\<close>.
\<close>

definition sample_frame :: dataframe where
  "sample_frame =
     \<lparr>nrows = 3,
      columns =
        [(''Score'', [Num 5, Num 1, Num 3]),
         (''Text'', [Str ''great product'', Str ''terrible, awful'', NaN]),
         (''Summary'', [Str ''good'', Str ''bad'', NaN]),
         (''ProfileName'', [Str ''ann'', Str ''bob'', Str ''ann''])]\<rparr>"

definition timed_frame :: dataframe where
  "timed_frame =
     \<lparr>nrows = 11,
      columns =
        [(''Score'', map Num [5, 4, 5, 3, 5, 4, 2, 5, 4, 5, 1]),
         (''Text'', replicate 10 (Str ''great product'') @ [Str ''terrible, awful'']),
         (''Summary'', replicate 11 (Str ''review'')),
         (''ProfileName'', replicate 11 (Str ''ann'')),
         (''Time'', map Num [1, 2, 3, 4, 5, 6, 7, 8, 9, 10, 11])]\<rparr>"

text \<open>Thirteen reviews by twelve reviewers (only the reviewer column is given).\<close>

definition reviewers_frame :: dataframe where
  "reviewers_frame =
     \<lparr>nrows = 13,
      columns =
        [(''ProfileName'',
          map Str [''a'', ''b'', ''c'', ''d'', ''e'', ''f'', ''g'', ''h'', ''i'', ''j'', ''k'',
                   ''l'', ''c''])]\<rparr>"

definition header_only :: dataframe where
  "header_only =
     \<lparr>nrows = 0,
      columns =
        [(''Score'', []), (''Text'', []), (''Summary'', []), (''ProfileName'', []),
         (''Time'', [])]\<rparr>"

text \<open>Three reviews, the second without a rating.\<close>

definition partly_rated_frame :: dataframe where
  "partly_rated_frame =
     \<lparr>nrows = 3,
      columns =
        [(''Score'', [Num 5, NaN, Num 4]),
         (''Text'', [Str ''great product'', Str ''terrible, awful'', Str ''great product'']),
         (''Summary'', [Str ''good'', Str ''bad'', Str ''good'']),
         (''ProfileName'', [Str ''ann'', Str ''bob'', Str ''ann''])]\<rparr>"

text \<open>One review without a rating, and one whose rating is a word.\<close>

definition unrated_frame :: dataframe where
  "unrated_frame =
     \<lparr>nrows = 1,
      columns =
        [(''Score'', [NaN]), (''Text'', [Str ''great product'']), (''Summary'', [Str ''good'']),
         (''ProfileName'', [Str ''ann''])]\<rparr>"

definition worded_frame :: dataframe where
  "worded_frame =
     \<lparr>nrows = 1,
      columns =
        [(''Score'', [Str ''five'']), (''Text'', [Str ''great product'']),
         (''Summary'', [Str ''good'']), (''ProfileName'', [Str ''ann''])]\<rparr>"

text \<open>A header line without a \<open>Text\<close> column, and no data row.\<close>

definition header_without_text :: dataframe where
  "header_without_text =
     \<lparr>nrows = 0,
      columns = [(''Score'', []), (''Summary'', []), (''ProfileName'', []), (''Time'', [])]\<rparr>"

text \<open>
  The sample parser knows the sample uploads, each written here by a short name that
  stands for its bytes. Ties are rounded to the even neighbour in the samples.
\<close>

definition sample_env :: env where
  "sample_env =
     \<lparr>read_csv = (\<lambda>file.
        if file = ''reviews.csv'' then Inr sample_frame
        else if file = ''timed.csv'' then Inr timed_frame
        else if file = ''header.csv'' then Inr header_only
        else if file = ''partly_rated.csv'' then Inr partly_rated_frame
        else if file = ''unrated.csv'' then Inr unrated_frame
        else if file = ''worded.csv'' then Inr worded_frame
        else if file = ''header_without_text.csv'' then Inr header_without_text
        else Inl ParserError),
      polarity = (\<lambda>text.
        if text = ''great product'' then 4 / 5
        else if text = ''terrible, awful'' then - 1
        else 0),
      str_num = (\<lambda>q. ''0''),
      str_stamp = (\<lambda>t. ''1970-01-01''),
      period_M = (\<lambda>t. \<lfloor>t / 2629800\<rfloor>),
      ties_up = (\<lambda>d x. odd \<lfloor>x * 10 ^ d\<rfloor>)\<rparr>"

text \<open>What the script computes for the three reviews.\<close>

definition sample_annotated :: dataframe where
  "sample_annotated =
     setitem (setitem sample_frame ''sentiment_score'' [Num (4 / 5), Num (- 1), Num 0])
       ''sentiment'' [Str ''Positive'', Str ''Negative'', Str ''Neutral'']"

definition sample_metrics :: metrics where
  "sample_metrics =
     \<lparr>total_reviews = 3,
      avg_rating = Finite 3,
      sentiment_counts = [(Str ''Positive'', 1), (Str ''Negative'', 1), (Str ''Neutral'', 1)],
      sentiment_pct =
        [(Str ''Positive'', 333 / 10), (Str ''Negative'', 333 / 10),
         (Str ''Neutral'', 333 / 10)]\<rparr>"

text \<open>The table of recent reviews that the script shows for the eleven reviews.\<close>

definition timed_recent :: dataframe where
  "timed_recent =
     \<lparr>nrows = 10,
      columns =
        [(''Summary'', replicate 10 (Str ''review'')),
         (''Text'', replicate 10 (Str ''great product'')),
         (''sentiment'', replicate 10 (Str ''Positive'')),
         (''Score'', map Num [5, 4, 5, 3, 5, 4, 2, 5, 4, 5]),
         (''date'', map Stamp [1, 2, 3, 4, 5, 6, 7, 8, 9, 10])]\<rparr>"

section \<open>Properties\<close>

subsection \<open>Columns of a frame\<close>

lemma getitem_setitem_same: "getitem (setitem df k s) k = Inr s"
  by (simp add: getitem_def setitem_def update_conv')

lemma getitem_setitem_other: "k' \<noteq> k \<Longrightarrow> getitem (setitem df k s) k' = getitem df k'"
  by (simp add: getitem_def setitem_def update_conv')

lemma nrows_setitem: "nrows (setitem df k s) = nrows df"
  by (simp add: setitem_def)

lemma getitem_wf_length:
  "wf_frame df \<Longrightarrow> getitem df k = Inr s \<Longrightarrow> length s = nrows df"
  by (auto simp: wf_frame_def getitem_def list_all_iff split: option.splits dest!: map_of_SomeD)

subsection \<open>Counting and rounding\<close>

lemma sum_list_insort_key:
  "sum_list (map g (insort_key f x xs)) = g x + sum_list (map g xs)"
  for g :: "'a \<Rightarrow> nat"
  by (induction xs) auto

lemma sum_list_sort_desc: "sum_list (map snd (sort_desc cs)) = sum_list (map snd cs)"
  unfolding sort_desc_def by (induction cs) (auto simp: sum_list_insort_key)

lemma set_unique: "set (unique xs) = set xs"
  by (simp add: unique_def)

lemma distinct_unique: "distinct (unique xs)"
  by (simp add: unique_def)

lemma sum_count_unique: "sum_list (map (count_list xs) (unique xs)) = length xs"
proof -
  have "sum_list (map (count_list xs) (unique xs)) = sum (count_list xs) (set xs)"
    using sum_list_distinct_conv_sum_set [OF distinct_unique, of "count_list xs" xs]
    by (simp add: set_unique)
  then show ?thesis
    by (simp add: sum_count_set)
qed

lemma value_counts_sum: "sum_list (map snd (value_counts s)) = length (dropna s)"
  by (simp add: value_counts_def Let_def sum_list_sort_desc comp_def sum_count_unique)

lemma set_value_counts:
  "set (value_counts s) = (\<lambda>v. (v, count_list (dropna s) v)) ` set (dropna s)"
  by (simp add: value_counts_def Let_def sort_desc_def set_unique)

lemma distinct_map_insort_key:
  "distinct (map g (insort_key f x xs)) = (g x \<notin> g ` set xs \<and> distinct (map g xs))"
  by (induction xs) (auto simp: set_insort_key)

lemma distinct_map_sort_key: "distinct (map g (sort_key f xs)) = distinct (map g xs)"
  by (induction xs) (auto simp: distinct_map_insort_key)

lemma distinct_keys_value_counts: "distinct (map fst (value_counts s))"
  by (simp add: value_counts_def Let_def sort_desc_def distinct_map_sort_key comp_def
      distinct_unique)

lemma map_of_value_counts:
  "map_of (value_counts s) v =
     (if v \<in> set (dropna s) then Some (count_list (dropna s) v) else None)"
proof (cases "v \<in> set (dropna s)")
  case True
  then have "(v, count_list (dropna s) v) \<in> set (value_counts s)"
    by (simp add: set_value_counts)
  with distinct_keys_value_counts show ?thesis
    using True by simp
next
  case False
  then have "v \<notin> fst ` set (value_counts s)"
    by (auto simp: set_value_counts)
  then show ?thesis
    using False by (simp add: map_of_eq_None_iff)
qed

lemma series_get_value_counts:
  "series_get (value_counts s) v 0 = count_list (dropna s) v"
  by (simp add: series_get_def map_of_value_counts count_list_0_iff)

lemma sentiment_label_cases:
  "sentiment_label x = ''Positive'' \<or> sentiment_label x = ''Negative'' \<or>
   sentiment_label x = ''Neutral''"
  by (simp add: sentiment_label_def)

lemma dropna_labels: "dropna (map (\<lambda>x. Str (f x)) xs) = map (\<lambda>x. Str (f x)) xs"
  by (induction xs) (simp_all add: dropna_def)

lemma count_labels:
  "count_list (map (\<lambda>x. Str (sentiment_label (f x))) xs) (Str ''Positive'') +
   count_list (map (\<lambda>x. Str (sentiment_label (f x))) xs) (Str ''Negative'') +
   count_list (map (\<lambda>x. Str (sentiment_label (f x))) xs) (Str ''Neutral'') = length xs"
proof (induction xs)
  case Nil
  show ?case by simp
next
  case (Cons x xs)
  from sentiment_label_cases [of "f x"] Cons show ?case
    by auto
qed

lemma rint_error: "\<bar>of_int (rint up x) - x\<bar> \<le> 1 / 2"
proof -
  have "of_int \<lfloor>x\<rfloor> \<le> x" and "x < of_int \<lfloor>x\<rfloor> + 1"
    by linarith+
  then show ?thesis
    unfolding rint_def Let_def by (auto simp: abs_le_iff)
qed

lemma round_nd_error: "\<bar>round_nd env d x - x\<bar> \<le> 1 / (2 * 10 ^ d)"
proof -
  have pos: "(0::rat) < 10 ^ d" by simp
  let ?k = "rint (ties_up env d x) (x * 10 ^ d)"
  have "round_nd env d x - x = (of_int ?k - x * 10 ^ d) / 10 ^ d"
    by (simp add: round_nd_def diff_divide_distrib)
  then have "\<bar>round_nd env d x - x\<bar> = \<bar>of_int ?k - x * 10 ^ d\<bar> / 10 ^ d"
    by simp
  also have "\<dots> \<le> (1 / 2) / 10 ^ d"
    by (rule divide_right_mono [OF rint_error]) simp
  finally show ?thesis by simp
qed



subsection \<open>The annotated frame\<close>

lemma annotate_Inr:
  "getitem df ''Text'' = Inr texts \<Longrightarrow>
   annotate env df =
     Inr (setitem
            (setitem df ''sentiment_score'' (map (\<lambda>x. Num (sentiment_score env x)) texts))
            ''sentiment'' (map (\<lambda>x. Str (sentiment_label (sentiment_score env x))) texts))"
  by (simp add: annotate_def Let_def comp_def)

lemma annotate_InrD:
  "annotate env df = Inr d \<Longrightarrow> \<exists>texts. getitem df ''Text'' = Inr texts"
  by (cases "getitem df ''Text''") (simp_all add: annotate_def)

lemma annotate_score_column:
  "getitem df ''Text'' = Inr texts \<Longrightarrow> annotate env df = Inr d \<Longrightarrow>
   getitem d ''sentiment_score'' = Inr (map (\<lambda>x. Num (sentiment_score env x)) texts)"
  by (auto simp: annotate_Inr getitem_setitem_same getitem_setitem_other)

lemma annotate_label_column:
  "getitem df ''Text'' = Inr texts \<Longrightarrow> annotate env df = Inr d \<Longrightarrow>
   getitem d ''sentiment'' =
     Inr (map (\<lambda>x. Str (sentiment_label (sentiment_score env x))) texts)"
  by (auto simp: annotate_Inr getitem_setitem_same)

lemma annotate_other_column:
  assumes "annotate env df = Inr d" and "k \<noteq> ''sentiment''" and "k \<noteq> ''sentiment_score''"
  shows "getitem d k = getitem df k"
proof -
  from assms(1) obtain texts where "getitem df ''Text'' = Inr texts"
    using annotate_InrD by blast
  with assms show ?thesis
    by (auto simp: annotate_Inr getitem_setitem_other)
qed

lemma annotate_nrows:
  assumes "annotate env df = Inr d"
  shows "nrows d = nrows df"
proof -
  from assms obtain texts where "getitem df ''Text'' = Inr texts"
    using annotate_InrD by blast
  with assms show ?thesis
    by (auto simp: annotate_Inr nrows_setitem)
qed

text \<open>
  C1. In every annotated frame the label of a row is fixed by the row's polarity score:
  \<open>Positive\<close> when the score is greater than \<open>0.1\<close>, \<open>Negative\<close> when it is less than
  \<open>-0.1\<close>, and \<open>Neutral\<close> otherwise.
\<close>

theorem sentiment_thresholds:
  assumes "annotate env df = Inr d"
  shows "\<exists>scores labels.
           getitem d ''sentiment_score'' = Inr (map Num scores) \<and>
           getitem d ''sentiment'' = Inr (map Str labels) \<and>
           length labels = length scores \<and>
           (\<forall>i < length scores.
              (1 / 10 < scores ! i \<longrightarrow> labels ! i = ''Positive'') \<and>
              (scores ! i < - (1 / 10) \<longrightarrow> labels ! i = ''Negative'') \<and>
              (\<not> 1 / 10 < scores ! i \<and> \<not> scores ! i < - (1 / 10)
                 \<longrightarrow> labels ! i = ''Neutral''))"
proof -
  from assms obtain texts where col: "getitem df ''Text'' = Inr texts"
    by (auto dest: annotate_InrD)
  let ?scores = "map (sentiment_score env) texts"
  let ?labels = "map sentiment_label ?scores"
  have "getitem d ''sentiment_score'' = Inr (map Num ?scores)"
    using annotate_score_column [OF col assms] by (simp add: comp_def)
  moreover have "getitem d ''sentiment'' = Inr (map Str ?labels)"
    using annotate_label_column [OF col assms] by (simp add: comp_def)
  moreover have "length ?labels = length ?scores" by simp
  moreover have "\<forall>i < length ?scores.
              (1 / 10 < ?scores ! i \<longrightarrow> ?labels ! i = ''Positive'') \<and>
              (?scores ! i < - (1 / 10) \<longrightarrow> ?labels ! i = ''Negative'') \<and>
              (\<not> 1 / 10 < ?scores ! i \<and> \<not> ?scores ! i < - (1 / 10)
                 \<longrightarrow> ?labels ! i = ''Neutral'')"
    by (simp add: sentiment_label_def)
  ultimately show ?thesis by blast
qed

theorem sentiment_thresholds_witness:
  "annotate sample_env sample_frame =
     Inr (setitem (setitem sample_frame ''sentiment_score'' [Num (4 / 5), Num (- 1), Num 0])
            ''sentiment'' [Str ''Positive'', Str ''Negative'', Str ''Neutral'']) \<and>
   (\<exists>scores labels.
      getitem
        (setitem (setitem sample_frame ''sentiment_score'' [Num (4 / 5), Num (- 1), Num 0])
           ''sentiment'' [Str ''Positive'', Str ''Negative'', Str ''Neutral''])
        ''sentiment_score'' = Inr (map Num scores) \<and>
      getitem
        (setitem (setitem sample_frame ''sentiment_score'' [Num (4 / 5), Num (- 1), Num 0])
           ''sentiment'' [Str ''Positive'', Str ''Negative'', Str ''Neutral''])
        ''sentiment'' = Inr (map Str labels) \<and>
      scores = [4 / 5, - 1, 0] \<and> labels = [''Positive'', ''Negative'', ''Neutral''])"
proof -
  let ?d = "setitem (setitem sample_frame ''sentiment_score'' [Num (4 / 5), Num (- 1), Num 0])
              ''sentiment'' [Str ''Positive'', Str ''Negative'', Str ''Neutral'']"
  have run: "annotate sample_env sample_frame = Inr ?d"
    by code_simp
  from sentiment_thresholds [OF run] obtain scores labels where
    sc: "getitem ?d ''sentiment_score'' = Inr (map Num scores)" and
    lb: "getitem ?d ''sentiment'' = Inr (map Str labels)"
    by blast
  have "map Num scores = [Num (4 / 5), Num (- 1), Num 0]"
    using sc by (simp add: getitem_setitem_same getitem_setitem_other)
  then have "scores = [4 / 5, - 1, 0]"
    by (auto simp: map_eq_Cons_conv)
  moreover have "map Str labels = [Str ''Positive'', Str ''Negative'', Str ''Neutral'']"
    using lb by (simp add: getitem_setitem_same)
  then have "labels = [''Positive'', ''Negative'', ''Neutral'']"
    by (auto simp: map_eq_Cons_conv)
  ultimately show ?thesis using run sc lb by blast
qed

subsection \<open>Summary metrics\<close>

lemma sample_wf: "wf_frame sample_frame"
  by code_simp

lemma sample_annotate: "annotate sample_env sample_frame = Inr sample_annotated"
  by code_simp

lemma sample_summary: "summary_metrics sample_env sample_annotated = Inr sample_metrics"
  by code_simp

lemma summary_metrics_InrD:
  assumes "summary_metrics env d = Inr m"
  shows "\<exists>score mu sent.
           getitem d ''Score'' = Inr score \<and> mean score = Inr mu \<and>
           getitem d ''sentiment'' = Inr sent \<and>
           total_reviews m = nrows d \<and>
           avg_rating m = py_round env mu 2 \<and>
           sentiment_counts m = value_counts sent \<and>
           sentiment_pct m = percentages env (value_counts sent) (nrows d)"
  using assms
  by (auto simp: summary_metrics_def Let_def split: sum.splits)



lemma three_label_counts:
  assumes "wf_frame df" and "annotate env df = Inr d" and "summary_metrics env d = Inr m"
  shows "series_get (sentiment_counts m) (Str ''Positive'') 0 +
         series_get (sentiment_counts m) (Str ''Negative'') 0 +
         series_get (sentiment_counts m) (Str ''Neutral'') 0 = nrows df"
proof -
  from assms(2) obtain texts where col: "getitem df ''Text'' = Inr texts"
    using annotate_InrD by blast
  let ?sent = "map (\<lambda>x. Str (sentiment_label (sentiment_score env x))) texts"
  have sent: "getitem d ''sentiment'' = Inr ?sent"
    using col assms(2) by (rule annotate_label_column)
  have len: "length texts = nrows df"
    using assms(1) col by (rule getitem_wf_length)
  from summary_metrics_InrD [OF assms(3)] sent
  have cnt: "sentiment_counts m = value_counts ?sent"
    by auto
  show ?thesis
    unfolding cnt series_get_value_counts dropna_labels
    using count_labels [of "sentiment_score env" texts] len by simp
qed

text \<open>
  C3. The counts of the three labels add up to the number of rows: every row of the
  annotated frame carries exactly one of the labels \<open>Positive\<close>, \<open>Negative\<close> and
  \<open>Neutral\<close>, and \<open>value_counts\<close> counts each row once.
\<close>

theorem label_counts_sum_to_total:
  assumes "wf_frame df" and "annotate env df = Inr d" and "summary_metrics env d = Inr m"
  shows "sum_list (map snd (sentiment_counts m)) = total_reviews m \<and>
         series_get (sentiment_counts m) (Str ''Positive'') 0 +
         series_get (sentiment_counts m) (Str ''Negative'') 0 +
         series_get (sentiment_counts m) (Str ''Neutral'') 0 = total_reviews m \<and>
         total_reviews m = nrows df \<and>
         (\<exists>labels. getitem d ''sentiment'' = Inr (map Str labels) \<and>
            length labels = nrows df \<and>
            set labels \<subseteq> {''Positive'', ''Negative'', ''Neutral''})"
proof -
  from assms(2) obtain texts where col: "getitem df ''Text'' = Inr texts"
    using annotate_InrD by blast
  let ?sent = "map (\<lambda>x. Str (sentiment_label (sentiment_score env x))) texts"
  have sent: "getitem d ''sentiment'' = Inr ?sent"
    using col assms(2) by (rule annotate_label_column)
  have len: "length texts = nrows df"
    using assms(1) col by (rule getitem_wf_length)
  from summary_metrics_InrD [OF assms(3)] sent
  have tot: "total_reviews m = nrows d" and cnt: "sentiment_counts m = value_counts ?sent"
    by auto
  have rows: "nrows d = nrows df"
    using assms(2) by (rule annotate_nrows)
  have "sum_list (map snd (sentiment_counts m)) = total_reviews m"
    by (simp add: cnt tot rows value_counts_sum dropna_labels len)
  moreover have "series_get (sentiment_counts m) (Str ''Positive'') 0 +
         series_get (sentiment_counts m) (Str ''Negative'') 0 +
         series_get (sentiment_counts m) (Str ''Neutral'') 0 = total_reviews m"
    using three_label_counts [OF assms] by (simp add: tot rows)
  moreover have "getitem d ''sentiment'' =
      Inr (map Str (map (\<lambda>x. sentiment_label (sentiment_score env x)) texts))"
    using sent by (simp add: comp_def)
  moreover have "set (map (\<lambda>x. sentiment_label (sentiment_score env x)) texts)
      \<subseteq> {''Positive'', ''Negative'', ''Neutral''}"
    using sentiment_label_cases by auto
  ultimately show ?thesis
    using tot rows len
    by (intro conjI exI [of _ "map (\<lambda>x. sentiment_label (sentiment_score env x)) texts"])
       simp_all
qed

theorem label_counts_sum_to_total_witness:
  "wf_frame sample_frame \<and>
   annotate sample_env sample_frame = Inr sample_annotated \<and>
   summary_metrics sample_env sample_annotated = Inr sample_metrics \<and>
   sum_list (map snd (sentiment_counts sample_metrics)) = 3 \<and>
   series_get (sentiment_counts sample_metrics) (Str ''Positive'') 0 +
   series_get (sentiment_counts sample_metrics) (Str ''Negative'') 0 +
   series_get (sentiment_counts sample_metrics) (Str ''Neutral'') 0 = 3 \<and>
   total_reviews sample_metrics = 3 \<and> nrows sample_frame = 3"
  using label_counts_sum_to_total [OF sample_wf sample_annotate sample_summary]
    sample_wf sample_annotate sample_summary
  by (simp add: sample_metrics_def sample_frame_def)



subsection \<open>Top reviewers\<close>

lemma sorted_sort_desc: "sorted_wrt (\<lambda>p q. snd q \<le> snd p) (sort_desc cs)"
proof -
  have "sorted (map (\<lambda>p. - int (snd p)) (sort_desc cs))"
    unfolding sort_desc_def by (rule sorted_sort_key)
  then show ?thesis
    by (simp add: sorted_map)
qed

lemma sort_desc_idem: "sort_desc (sort_desc cs) = sort_desc cs"
  unfolding sort_desc_def by (rule sort_key_id_if_sorted) (rule sorted_sort_key)

lemma nlargest_value_counts: "nlargest n (value_counts s) = take n (value_counts s)"
  by (simp add: nlargest_def value_counts_def Let_def sort_desc_idem)

lemma sorted_value_counts: "sorted_wrt (\<lambda>p q. snd q \<le> snd p) (value_counts s)"
  by (simp add: value_counts_def Let_def sorted_sort_desc)

lemma count_list_dropna:
  "v \<noteq> NaN \<Longrightarrow> v \<noteq> NaT \<Longrightarrow> count_list (dropna s) v = count_list s v"
  by (induction s) (auto simp: dropna_def)

lemma value_counts_entry:
  assumes "(v, c) \<in> set (value_counts s)"
  shows "c = count_list s v \<and> 0 < c \<and> v \<noteq> NaN \<and> v \<noteq> NaT"
proof -
  from assms have v: "v \<in> set (dropna s)" and c: "c = count_list (dropna s) v"
    by (auto simp: set_value_counts)
  from v have "v \<noteq> NaN" and "v \<noteq> NaT"
    by (auto simp: dropna_def)
  moreover from v have "0 < count_list (dropna s) v"
    using count_list_0_iff [of "dropna s" v] by simp
  ultimately show ?thesis
    using c by (simp add: count_list_dropna)
qed

lemma sorted_wrt_take_drop:
  assumes "sorted_wrt R xs" and "x \<in> set (take n xs)" and "y \<in> set (drop n xs)"
  shows "R x y"
proof -
  have "sorted_wrt R (take n xs @ drop n xs)"
    using assms(1) by simp
  then show ?thesis
    using assms(2,3) unfolding sorted_wrt_append by blast
qed

text \<open>
  C6. The list of top reviewers has at most 10 entries and is sorted by review count,
  largest first. Its reviewers are distinct, each with the number of its reviews, and no
  reviewer left out has more reviews than one in the list. The order among equal counts
  is not constrained here.
\<close>

theorem top_users_at_most_ten_sorted:
  assumes "getitem df ''ProfileName'' = Inr names"
  shows "\<exists>top. top_users df = Inr top \<and>
           length top \<le> 10 \<and>
           sorted_wrt (\<lambda>p q. snd q \<le> snd p) top \<and>
           distinct (map fst top) \<and>
           (\<forall>p \<in> set top. snd p = count_list names (fst p) \<and> 0 < snd p \<and> fst p \<noteq> NaN) \<and>
           (\<forall>p \<in> set top. \<forall>q \<in> set (value_counts names) - set top. snd q \<le> snd p)"
proof -
  let ?all = "value_counts names"
  let ?top = "take 10 ?all"
  have top: "top_users df = Inr ?top"
    by (simp add: top_users_def assms nlargest_value_counts)
  have "length ?top \<le> 10"
    by simp
  moreover have "sorted_wrt (\<lambda>p q. snd q \<le> snd p) ?top"
    using sorted_value_counts by (rule sorted_wrt_take)
  moreover have "distinct (map fst ?top)"
    using distinct_keys_value_counts [of names] by (simp add: take_map [symmetric] distinct_take)
  moreover have "\<forall>p \<in> set ?top. snd p = count_list names (fst p) \<and> 0 < snd p \<and> fst p \<noteq> NaN"
  proof
    fix p assume "p \<in> set ?top"
    then have "(fst p, snd p) \<in> set ?all"
      by (auto dest: in_set_takeD)
    then show "snd p = count_list names (fst p) \<and> 0 < snd p \<and> fst p \<noteq> NaN"
      using value_counts_entry by blast
  qed
  moreover have "\<forall>p \<in> set ?top. \<forall>q \<in> set ?all - set ?top. snd q \<le> snd p"
  proof (intro ballI)
    fix p q assume p: "p \<in> set ?top" and q: "q \<in> set ?all - set ?top"
    have "set ?all = set ?top \<union> set (drop 10 ?all)"
      by (metis append_take_drop_id set_append)
    with q have "q \<in> set (drop 10 ?all)"
      by blast
    with sorted_value_counts p show "snd q \<le> snd p"
      by (rule sorted_wrt_take_drop)
  qed
  ultimately show ?thesis
    using top by blast
qed

theorem top_users_at_most_ten_sorted_witness:
  "getitem reviewers_frame ''ProfileName'' =
     Inr (map Str [''a'', ''b'', ''c'', ''d'', ''e'', ''f'', ''g'', ''h'', ''i'', ''j'', ''k'',
                   ''l'', ''c'']) \<and>
   top_users reviewers_frame =
     Inr [(Str ''c'', 2), (Str ''a'', 1), (Str ''b'', 1), (Str ''d'', 1), (Str ''e'', 1),
          (Str ''f'', 1), (Str ''g'', 1), (Str ''h'', 1), (Str ''i'', 1), (Str ''j'', 1)]"
proof -
  have col: "getitem reviewers_frame ''ProfileName'' =
     Inr (map Str [''a'', ''b'', ''c'', ''d'', ''e'', ''f'', ''g'', ''h'', ''i'', ''j'', ''k'',
                   ''l'', ''c''])"
    by code_simp
  have "top_users reviewers_frame =
     Inr [(Str ''c'', 2), (Str ''a'', 1), (Str ''b'', 1), (Str ''d'', 1), (Str ''e'', 1),
          (Str ''f'', 1), (Str ''g'', 1), (Str ''h'', 1), (Str ''i'', 1), (Str ''j'', 1)]"
    by code_simp
  with top_users_at_most_ten_sorted [OF col] col show ?thesis
    by blast
qed

subsection \<open>Rows without text, and rows in any order\<close>

lemma sentiment_label_neutral:
  "- (1 / 10) \<le> x \<Longrightarrow> x \<le> 1 / 10 \<Longrightarrow> sentiment_label x = ''Neutral''"
  by (simp add: sentiment_label_def)

text \<open>
  C9. A row whose text is missing or empty does not make the annotation fail. The cell
  is turned into a string first (a missing value reads \<open>nan\<close>), that string is scored,
  and the row gets a label. The label is \<open>Neutral\<close> when the scorer rates the two strings
  within the neutral band, as a lexicon scorer does for a text without any word it knows.
\<close>

theorem missing_text_is_scored_neutral:
  assumes "getitem df ''Text'' = Inr texts" and "i < length texts"
    and "texts ! i = NaN \<or> texts ! i = Str ''''"
    and "\<bar>polarity env ''nan''\<bar> \<le> 1 / 10" and "\<bar>polarity env ''''\<bar> \<le> 1 / 10"
  shows "\<exists>d scores labels.
           annotate env df = Inr d \<and>
           getitem d ''sentiment_score'' = Inr scores \<and>
           getitem d ''sentiment'' = Inr labels \<and>
           length scores = length texts \<and> length labels = length texts \<and>
           scores ! i = Num (polarity env (py_str env (texts ! i))) \<and>
           py_str env (texts ! i) = (if texts ! i = NaN then ''nan'' else '''') \<and>
           labels ! i = Str ''Neutral''"
proof -
  let ?d = "setitem
            (setitem df ''sentiment_score'' (map (\<lambda>x. Num (sentiment_score env x)) texts))
            ''sentiment'' (map (\<lambda>x. Str (sentiment_label (sentiment_score env x))) texts)"
  have run: "annotate env df = Inr ?d"
    using assms(1) by (rule annotate_Inr)
  have sc: "getitem ?d ''sentiment_score'' = Inr (map (\<lambda>x. Num (sentiment_score env x)) texts)"
    using assms(1) run by (rule annotate_score_column)
  have lb: "getitem ?d ''sentiment'' =
      Inr (map (\<lambda>x. Str (sentiment_label (sentiment_score env x))) texts)"
    using assms(1) run by (rule annotate_label_column)
  have str: "py_str env (texts ! i) = (if texts ! i = NaN then ''nan'' else '''')"
    using assms(3) by auto
  have "\<bar>sentiment_score env (texts ! i)\<bar> \<le> 1 / 10"
    using assms(3-5) by (auto simp: sentiment_score_def)
  then have "sentiment_label (sentiment_score env (texts ! i)) = ''Neutral''"
    by (intro sentiment_label_neutral) linarith+
  then have "map (\<lambda>x. Str (sentiment_label (sentiment_score env x))) texts ! i = Str ''Neutral''"
    using assms(2) by simp
  moreover have "map (\<lambda>x. Num (sentiment_score env x)) texts ! i =
      Num (polarity env (py_str env (texts ! i)))"
    using assms(2) by (simp add: sentiment_score_def)
  ultimately show ?thesis
    using run sc lb str
    by (intro exI [of _ ?d] exI [of _ "map (\<lambda>x. Num (sentiment_score env x)) texts"]
        exI [of _ "map (\<lambda>x. Str (sentiment_label (sentiment_score env x))) texts"])
       simp
qed

theorem missing_text_is_scored_neutral_witness:
  "getitem sample_frame ''Text'' = Inr [Str ''great product'', Str ''terrible, awful'', NaN] \<and>
   (2::nat) < length [Str ''great product'', Str ''terrible, awful'', NaN] \<and>
   [Str ''great product'', Str ''terrible, awful'', NaN] ! 2 = NaN \<and>
   \<bar>polarity sample_env ''nan''\<bar> \<le> 1 / 10 \<and> \<bar>polarity sample_env ''''\<bar> \<le> 1 / 10 \<and>
   annotate sample_env sample_frame = Inr sample_annotated \<and>
   getitem sample_annotated ''sentiment'' =
     Inr [Str ''Positive'', Str ''Negative'', Str ''Neutral'']"
proof -
  let ?texts = "[Str ''great product'', Str ''terrible, awful'', NaN]"
  have col: "getitem sample_frame ''Text'' = Inr ?texts"
    by code_simp
  have i: "(2::nat) < length ?texts"
    by simp
  have cell: "?texts ! 2 = NaN \<or> ?texts ! 2 = Str ''''"
    by simp
  have nan: "\<bar>polarity sample_env ''nan''\<bar> \<le> 1 / 10"
    by (simp add: sample_env_def)
  have empty: "\<bar>polarity sample_env ''''\<bar> \<le> 1 / 10"
    by (simp add: sample_env_def)
  have "getitem sample_annotated ''sentiment'' =
     Inr [Str ''Positive'', Str ''Negative'', Str ''Neutral'']"
    by (simp add: sample_annotated_def getitem_setitem_same)
  with missing_text_is_scored_neutral [OF col i cell nan empty] col i nan empty sample_annotate
  show ?thesis
    by simp
qed

text \<open>
  C10. The annotation works row by row. The score and the label of a row are functions
  of that row's text alone; annotating the rows in another order (\<open>order\<close> lists row
  numbers, any of them, in any order) gives the same annotations in that order; and
  replacing the text of row \<open>i\<close> changes the annotation of no other row.
\<close>

theorem annotation_is_rowwise:
  assumes "getitem df ''Text'' = Inr texts" and "list_all (\<lambda>j. j < length texts) order"
  shows "\<exists>d d_order d_edit scores labels scores_edit labels_edit.
           annotate env df = Inr d \<and>
           getitem d ''sentiment_score'' = Inr scores \<and>
           getitem d ''sentiment'' = Inr labels \<and>
           length scores = length texts \<and> length labels = length texts \<and>
           (\<forall>j < length texts.
              scores ! j = Num (sentiment_score env (texts ! j)) \<and>
              labels ! j = Str (sentiment_label (sentiment_score env (texts ! j)))) \<and>
           annotate env (setitem df ''Text'' (map (\<lambda>j. texts ! j) order)) = Inr d_order \<and>
           getitem d_order ''sentiment_score'' = Inr (map (\<lambda>j. scores ! j) order) \<and>
           getitem d_order ''sentiment'' = Inr (map (\<lambda>j. labels ! j) order) \<and>
           annotate env (setitem df ''Text'' (texts[i := t])) = Inr d_edit \<and>
           getitem d_edit ''sentiment_score'' = Inr scores_edit \<and>
           getitem d_edit ''sentiment'' = Inr labels_edit \<and>
           (\<forall>j < length texts. j \<noteq> i \<longrightarrow>
              scores_edit ! j = scores ! j \<and> labels_edit ! j = labels ! j)"
proof -
  let ?sc = "\<lambda>xs. map (\<lambda>x. Num (sentiment_score env x)) xs"
  let ?lb = "\<lambda>xs. map (\<lambda>x. Str (sentiment_label (sentiment_score env x))) xs"
  have each: "\<exists>d. annotate env f = Inr d \<and> getitem d ''sentiment_score'' = Inr (?sc xs) \<and>
      getitem d ''sentiment'' = Inr (?lb xs)" if "getitem f ''Text'' = Inr xs" for f xs
    using that annotate_Inr [OF that] annotate_score_column [OF that]
      annotate_label_column [OF that] by blast
  define scores where "scores = ?sc texts"
  define labels where "labels = ?lb texts"
  define scores_edit where "scores_edit = ?sc (texts[i := t])"
  define labels_edit where "labels_edit = ?lb (texts[i := t])"
  let ?perm = "map (\<lambda>j. texts ! j) order"
  have in_range: "\<forall>j \<in> set order. j < length texts"
    using assms(2) by (simp add: list_all_iff)
  have sc_perm: "?sc ?perm = map (\<lambda>j. scores ! j) order"
    using in_range by (simp add: scores_def)
  have lb_perm: "?lb ?perm = map (\<lambda>j. labels ! j) order"
    using in_range by (simp add: labels_def)
  obtain d where d1: "annotate env df = Inr d"
    and d2: "getitem d ''sentiment_score'' = Inr scores"
    and d3: "getitem d ''sentiment'' = Inr labels"
    using each [OF assms(1)] unfolding scores_def labels_def by blast
  obtain d_order where o1: "annotate env (setitem df ''Text'' ?perm) = Inr d_order"
    and o2: "getitem d_order ''sentiment_score'' = Inr (map (\<lambda>j. scores ! j) order)"
    and o3: "getitem d_order ''sentiment'' = Inr (map (\<lambda>j. labels ! j) order)"
    using each [OF getitem_setitem_same [of df "''Text''" ?perm]]
    unfolding sc_perm lb_perm by blast
  obtain d_edit where e1: "annotate env (setitem df ''Text'' (texts[i := t])) = Inr d_edit"
    and e2: "getitem d_edit ''sentiment_score'' = Inr scores_edit"
    and e3: "getitem d_edit ''sentiment'' = Inr labels_edit"
    using each [OF getitem_setitem_same [of df "''Text''" "texts[i := t]"]]
    unfolding scores_edit_def labels_edit_def by blast
  have len: "length scores = length texts \<and> length labels = length texts"
    by (simp add: scores_def labels_def)
  have rowwise: "\<forall>j < length texts.
      scores ! j = Num (sentiment_score env (texts ! j)) \<and>
      labels ! j = Str (sentiment_label (sentiment_score env (texts ! j)))"
    by (simp add: scores_def labels_def)
  have others: "\<forall>j < length texts. j \<noteq> i \<longrightarrow>
      scores_edit ! j = scores ! j \<and> labels_edit ! j = labels ! j"
    by (simp add: scores_def labels_def scores_edit_def labels_edit_def)
  from d1 d2 d3 len rowwise o1 o2 o3 e1 e2 e3 others show ?thesis
    by blast
qed

theorem annotation_is_rowwise_witness:
  "getitem sample_frame ''Text'' = Inr [Str ''great product'', Str ''terrible, awful'', NaN] \<and>
   list_all (\<lambda>j. j < length [Str ''great product'', Str ''terrible, awful'', NaN]) [2, 0, 1] \<and>
   (\<exists>d_order.
      annotate sample_env
        (setitem sample_frame ''Text'' [NaN, Str ''great product'', Str ''terrible, awful''])
        = Inr d_order \<and>
      getitem d_order ''sentiment'' = Inr [Str ''Neutral'', Str ''Positive'', Str ''Negative''])"
proof -
  let ?texts = "[Str ''great product'', Str ''terrible, awful'', NaN]"
  have col: "getitem sample_frame ''Text'' = Inr ?texts"
    by code_simp
  have ord: "list_all (\<lambda>j. j < length ?texts) [2, 0, 1]"
    by simp
  from annotation_is_rowwise [OF col ord, of sample_env 0 NaN]
  obtain d d_order labels where
    d: "annotate sample_env sample_frame = Inr d" and
    lb: "getitem d ''sentiment'' = Inr labels" and
    o1: "annotate sample_env (setitem sample_frame ''Text'' (map (\<lambda>j. ?texts ! j) [2, 0, 1]))
          = Inr d_order" and
    o2: "getitem d_order ''sentiment'' = Inr (map (\<lambda>j. labels ! j) [2, 0, 1])"
    by blast
  from d have "d = sample_annotated"
    by (simp add: sample_annotate)
  with lb have "labels = [Str ''Positive'', Str ''Negative'', Str ''Neutral'']"
    by (simp add: sample_annotated_def getitem_setitem_same)
  with o2 have "getitem d_order ''sentiment'' =
      Inr [Str ''Neutral'', Str ''Positive'', Str ''Negative'']"
    by simp
  moreover from o1 have "annotate sample_env
      (setitem sample_frame ''Text'' [NaN, Str ''great product'', Str ''terrible, awful''])
      = Inr d_order"
    by simp
  ultimately show ?thesis
    using col ord by blast
qed

subsection \<open>Runs of the script\<close>

lemma and_then_Inr: "and_then (ws, Inr a) f = (ws @ fst (f a), snd (f a))"
  by (simp add: and_then_def split: prod.splits)

lemma and_then_Inl: "and_then (ws, Inl e) f = (ws, Inl e)"
  by (simp add: and_then_def)

lemma and_then_render: "and_then (render w) f = (w # fst (f ()), snd (f ()))"
  by (simp add: and_then_def render_def split: prod.splits)

lemma and_then_compute_Inr: "and_then (compute (Inr a)) f = f a"
  by (simp add: and_then_def compute_def)

lemma and_then_compute_Inl: "and_then (compute (Inl e)) f = ([], Inl e)"
  by (simp add: and_then_def compute_def)

lemma has_column_map_of: "has_column df k \<longleftrightarrow> map_of (columns df) k \<noteq> None"
  by (simp add: has_column_def map_of_eq_None_iff)

lemma has_column_getitem: "has_column df k \<Longrightarrow> \<exists>s. getitem df k = Inr s"
  by (auto simp: has_column_map_of getitem_def)

lemma getitem_has_column: "getitem df k = Inr s \<Longrightarrow> has_column df k"
  by (auto simp: has_column_map_of getitem_def split: option.splits)

lemma empty_column:
  assumes "wf_frame df" and "nrows df = 0" and "has_column df k"
  shows "getitem df k = Inr []"
proof -
  from assms(3) obtain s where s: "getitem df k = Inr s"
    using has_column_getitem by blast
  with assms(1,2) have "length s = 0"
    using getitem_wf_length by fastforce
  with s show ?thesis by simp
qed

lemma convert_time_empty:
  assumes "wf_frame df" and "nrows df = 0"
  shows "\<exists>d. convert_time df = Inr d \<and> nrows d = 0 \<and>
           (\<forall>k. k \<noteq> ''date'' \<longrightarrow> getitem d k = getitem df k)"
proof (cases "has_column df ''Time''")
  case True
  then have "getitem df ''Time'' = Inr []"
    using assms empty_column by blast
  then show ?thesis
    using True assms(2) by (simp add: convert_time_def getitem_setitem_other nrows_setitem)
next
  case False
  then show ?thesis
    using assms(2) by (simp add: convert_time_def)
qed

lemma value_counts_Nil: "value_counts [] = []"
  by (simp add: value_counts_def dropna_def unique_def sort_desc_def)

lemma mean_Nil: "mean [] = Inr Nan"
  by (simp add: mean_def)

subsection \<open>The trend section without a \<open>Time\<close> column\<close>

lemma widgets_and_then:
  "w \<in> set (fst (and_then m f)) \<Longrightarrow>
   w \<in> set (fst m) \<or> (\<exists>a. snd m = Inr a \<and> w \<in> set (fst (f a)))"
  by (cases m; cases "snd m") (auto simp: and_then_def split: prod.splits)

lemma widgets_load: "Info NoTimeColumn \<notin> set (fst (load df))"
  by (cases "convert_time df")
     (simp_all add: load_def render_def compute_def and_then_Inr and_then_Inl)

lemma widgets_analyze: "Info NoTimeColumn \<notin> set (fst (analyze env df))"
  by (cases "annotate env df")
     (simp_all add: analyze_def render_def compute_def and_then_Inr and_then_Inl)

lemma widgets_show_metrics: "Info NoTimeColumn \<notin> set (fst (show_metrics env df))"
  by (cases "summary_metrics env df")
     (simp_all add: show_metrics_def render_def compute_def and_then_Inr and_then_Inl)

lemma recent_reviews_has_date: "recent_reviews df = Inr t \<Longrightarrow> has_column df ''date''"
  by (auto simp: recent_reviews_def getitems_def split: sum.splits
      dest: getitem_has_column)

lemma show_breakdown_cases:
  "(Info NoTimeColumn \<notin> set (fst (show_breakdown df m))) \<and>
   (snd (show_breakdown df m) = Inr u \<longrightarrow> has_column df ''date'')"
  by (cases "getitem df ''Score''"; cases "getitem df ''sentiment''"; cases "recent_reviews df")
     (auto simp: show_breakdown_def render_def compute_def and_then_Inr and_then_Inl
        dest: recent_reviews_has_date)

lemma widgets_show_top_users: "Info NoTimeColumn \<notin> set (fst (show_top_users df))"
  by (cases "top_users df")
     (simp_all add: show_top_users_def render_def compute_def and_then_Inr and_then_Inl)

lemma widgets_show_trend:
  "has_column df ''date'' \<Longrightarrow> Info NoTimeColumn \<notin> set (fst (show_trend env uploaded df))"
  by (cases "getitem df ''date''"; cases "has_column uploaded ''Time''";
      cases "getitem df ''sentiment''")
     (simp_all add: show_trend_def px_line_def render_def compute_def and_then_Inr and_then_Inl)

lemma widgets_show_trends:
  assumes "has_column df ''date''"
  shows "Info NoTimeColumn \<notin> set (fst (show_trends env uploaded df))"
proof
  assume "Info NoTimeColumn \<in> set (fst (show_trends env uploaded df))"
  then have "Info NoTimeColumn \<in> set (fst (and_then (show_trend env uploaded df)
      (\<lambda>_. show_top_users df)))"
    by (simp add: show_trends_def and_then_render)
  from widgets_and_then [OF this] show False
    using widgets_show_trend [OF assms] widgets_show_top_users by blast
qed

lemma fallback_never_rendered_dashboard:
  "Info NoTimeColumn \<notin> set (fst (dashboard env uploaded))"
proof
  assume "Info NoTimeColumn \<in> set (fst (dashboard env uploaded))"
  then obtain d1 where "Info NoTimeColumn \<in> set (fst (and_then (analyze env d1)
      (\<lambda>df. and_then (show_metrics env df)
        (\<lambda>m. and_then (show_breakdown df m) (\<lambda>_. show_trends env uploaded df)))))"
    unfolding dashboard_def using widgets_load by (blast dest: widgets_and_then)
  then obtain d where "Info NoTimeColumn \<in> set (fst (and_then (show_metrics env d)
        (\<lambda>m. and_then (show_breakdown d m) (\<lambda>_. show_trends env uploaded d))))"
    using widgets_analyze by (blast dest: widgets_and_then)
  then obtain m where "Info NoTimeColumn \<in> set (fst (and_then (show_breakdown d m)
      (\<lambda>_. show_trends env uploaded d)))"
    using widgets_show_metrics by (blast dest: widgets_and_then)
  then obtain u where "snd (show_breakdown d m) = Inr u"
    and "Info NoTimeColumn \<in> set (fst (show_trends env uploaded d))"
    using show_breakdown_cases by (blast dest: widgets_and_then)
  then show False
    using show_breakdown_cases widgets_show_trends by blast
qed

lemma fallback_never_rendered: "Info NoTimeColumn \<notin> set (fst (app env uploaded_file))"
proof (cases uploaded_file)
  case None
  then show ?thesis
    by (simp add: app_def render_def and_then_Inr)
next
  case (Some csv)
  show ?thesis
  proof (cases "pd_read_csv env csv")
    case (Inl e)
    with Some show ?thesis
      by (simp add: app_def render_def compute_def and_then_Inr and_then_Inl)
  next
    case (Inr df)
    with Some show ?thesis
      by (simp add: app_def and_then_render and_then_compute_Inr
          fallback_never_rendered_dashboard)
  qed
qed

lemma result_and_then:
  "snd (and_then m f) = Inr b \<Longrightarrow> \<exists>a. snd m = Inr a \<and> snd (f a) = Inr b"
  by (cases m; cases "snd m") (auto simp: and_then_def split: prod.splits)

lemma show_trend_needs_time:
  assumes "\<not> has_column uploaded ''Time''" and "has_column df ''date''"
  shows "snd (show_trend env uploaded df) \<noteq> Inr u"
  using assms
  by (cases "getitem df ''date''")
     (simp_all add: show_trend_def render_def compute_def and_then_Inr and_then_Inl)

lemma no_time_column_never_completes:
  assumes "\<not> has_column uploaded ''Time''"
  shows "snd (dashboard env uploaded) \<noteq> Inr ()"
proof
  assume "snd (dashboard env uploaded) = Inr ()"
  then obtain d1 where "snd (and_then (analyze env d1)
      (\<lambda>df. and_then (show_metrics env df)
        (\<lambda>m. and_then (show_breakdown df m) (\<lambda>_. show_trends env uploaded df)))) = Inr ()"
    unfolding dashboard_def by (blast dest: result_and_then)
  then obtain d where "snd (and_then (show_metrics env d)
        (\<lambda>m. and_then (show_breakdown d m) (\<lambda>_. show_trends env uploaded d))) = Inr ()"
    by (blast dest: result_and_then)
  then obtain m where "snd (and_then (show_breakdown d m)
      (\<lambda>_. show_trends env uploaded d)) = Inr ()"
    by (blast dest: result_and_then)
  then obtain u where shown: "snd (show_breakdown d m) = Inr u"
    and trends: "snd (show_trends env uploaded d) = Inr ()"
    by (blast dest: result_and_then)
  from shown have date: "has_column d ''date''"
    using show_breakdown_cases by blast
  from trends have "snd (and_then (show_trend env uploaded d) (\<lambda>_. show_top_users d)) = Inr ()"
    by (simp add: show_trends_def and_then_render)
  then obtain v where "snd (show_trend env uploaded d) = Inr v"
    by (blast dest: result_and_then)
  with show_trend_needs_time [OF assms date] show False
    by blast
qed

text \<open>
  C2. The claim: an upload that parses and has no \<open>Time\<close> column does not crash, and
  the trend section shows the fallback message. On the three sample reviews, which have
  no \<open>Time\<close> column, the script stops at line 92 with \<open>KeyError: 'date'\<close>, because
  the table of recent reviews selects the \<open>date\<close> column that only line 35 creates;
  the message of line 113 is not rendered. By \<open>fallback_never_rendered\<close> no upload
  reaches that message, and by \<open>no_time_column_never_completes\<close> no upload without
  a \<open>Time\<close> column runs to the end.
\<close>

theorem missing_time_column_crashes:
  "\<not> has_column sample_frame ''Time'' \<and>
   read_csv sample_env ''reviews.csv'' = Inr sample_frame \<and>
   snd (app sample_env (Some ''reviews.csv'')) = Inl (KeyError ''date'') \<and>
   Info NoTimeColumn \<notin> set (fst (app sample_env (Some ''reviews.csv'')))"
  by code_simp

subsection \<open>The table of recent reviews\<close>

lemma select_columns_take:
  "select_columns df names = Inr cs \<Longrightarrow> distinct names \<Longrightarrow> k \<in> set names \<Longrightarrow>
   getitem df k = Inr col \<Longrightarrow> map_of cs k = Some col"
  by (induction names arbitrary: cs) (auto split: sum.splits)

lemma map_of_map_values:
  "map_of (map (\<lambda>c. (fst c, f (snd c))) xs) k = map_option f (map_of xs k)"
  by (induction xs) auto

lemma getitem_head:
  "getitem df k = Inr col \<Longrightarrow> getitem (head n df) k = Inr (take n col)"
  by (auto simp: getitem_def head_def map_of_map_values split: option.splits)

lemma recent_reviews_first_rows:
  assumes "recent_reviews df = Inr t" and "getitem df k = Inr col"
    and "k \<in> set [''Summary'', ''Text'', ''sentiment'', ''Score'', ''date'']"
  shows "getitem t k = Inr (take 10 col)"
proof -
  let ?names = "[''Summary'', ''Text'', ''sentiment'', ''Score'', ''date'']"
  from assms(1) obtain cs where cs: "select_columns df ?names = Inr cs"
    and t: "t = head 10 \<lparr>nrows = nrows df, columns = cs\<rparr>"
    by (auto simp: recent_reviews_def getitems_def split: sum.splits simp del: select_columns.simps)
  have "distinct ?names" by simp
  with cs assms(2,3) have "map_of cs k = Some col"
    using select_columns_take by blast
  then have "getitem \<lparr>nrows = nrows df, columns = cs\<rparr> k = Inr col"
    by (simp add: getitem_def)
  then show ?thesis
    unfolding t by (rule getitem_head)
qed

text \<open>
  C7. The claim: the table of recent reviews holds the 10 most recent reviews by date.
  The script takes the first 10 rows in file order (\<open>recent_reviews_first_rows\<close>) and
  never sorts by date. For eleven reviews in ascending order of time it shows the ten
  oldest ones; the most recent review, of time 11, is not in the table.
\<close>

theorem recent_table_is_first_rows:
  "read_csv sample_env ''timed.csv'' = Inr timed_frame \<and>
   getitem timed_frame ''Time'' = Inr (map Num [1, 2, 3, 4, 5, 6, 7, 8, 9, 10, 11]) \<and>
   RecentTable timed_recent \<in> set (fst (app sample_env (Some ''timed.csv''))) \<and>
   getitem timed_recent ''date'' = Inr (map Stamp [1, 2, 3, 4, 5, 6, 7, 8, 9, 10]) \<and>
   Stamp 11 \<notin> set (map Stamp [1, 2, 3, 4, 5, 6, 7, 8, 9, 10])"
  by code_simp

subsection \<open>The average rating\<close>

lemma numbers_conv: "numbers s = [q. Num q \<leftarrow> s]"
  by (induction s rule: numbers.induct) simp_all

lemma mean_numeric:
  "list_all numeric s \<Longrightarrow> [q. Num q \<leftarrow> s] \<noteq> [] \<Longrightarrow>
   mean s = Inr (Finite (sum_list [q. Num q \<leftarrow> s] / of_nat (length [q. Num q \<leftarrow> s])))"
  by (simp add: mean_def Let_def list_ex_iff list_all_iff numbers_conv)

lemma convert_time_other:
  "convert_time df = Inr d \<Longrightarrow> k \<noteq> ''date'' \<Longrightarrow> getitem d k = getitem df k"
  by (auto simp: convert_time_def getitem_setitem_other split: if_splits sum.splits)

lemma convert_time_nrows: "convert_time df = Inr d \<Longrightarrow> nrows d = nrows df"
  by (auto simp: convert_time_def nrows_setitem split: if_splits sum.splits)

lemma load_Inr:
  "convert_time df = Inr d \<Longrightarrow>
   load df = ([Success (Loaded (nrows df)), DataPreview (head 10 df)], Inr d)"
  by (simp add: load_def render_def compute_def and_then_Inr)

lemma analyze_Inr: "annotate env d0 = Inr d \<Longrightarrow> analyze env d0 = ([Info Analyzing], Inr d)"
  by (simp add: analyze_def render_def compute_def and_then_Inr)

lemma show_metrics_Inr:
  "summary_metrics env d = Inr m \<Longrightarrow>
   show_metrics env d =
     ([Subheader, Metric ''Total Reviews'' (Count (total_reviews m)),
       Metric ''Average Rating'' (Mean (avg_rating m)),
       Metric ''Positive (%)'' (Percent (series_get (sentiment_pct m) (Str ''Positive'') 0)),
       Metric ''Negative (%)'' (Percent (series_get (sentiment_pct m) (Str ''Negative'') 0))],
      Inr m)"
  by (simp add: show_metrics_def render_def compute_def and_then_Inr)

lemma app_until_metrics:
  assumes "pd_read_csv env file = Inr df" and "convert_time df = Inr d0"
    and "annotate env d0 = Inr d" and "summary_metrics env d = Inr m"
  shows "fst (app env (Some file)) =
     [Title, SidebarHeader, FileUploader, Success (Loaded (nrows df)),
      DataPreview (head 10 df), Info Analyzing, Subheader,
      Metric ''Total Reviews'' (Count (total_reviews m)),
      Metric ''Average Rating'' (Mean (avg_rating m)),
      Metric ''Positive (%)'' (Percent (series_get (sentiment_pct m) (Str ''Positive'') 0)),
      Metric ''Negative (%)'' (Percent (series_get (sentiment_pct m) (Str ''Negative'') 0))]
     @ fst (and_then (show_breakdown d m) (\<lambda>_. show_trends env df d))"
  by (simp add: app_def dashboard_def render_def compute_def and_then_Inr assms
      load_Inr [OF assms(2)] analyze_Inr [OF assms(3)] show_metrics_Inr [OF assms(4)])

lemma float_tie_rounds_up:
  "round_nd (sample_env\<lparr>ties_up := \<lambda>d x. True\<rparr>) 2 (49 / 40) = 123 / 100"
  by code_simp

lemma float_tie_rounds_to_even:
  "round_nd (sample_env\<lparr>ties_up := \<lambda>d x. False\<rparr>) 2 (1 / 8) = 12 / 100"
  by code_simp


text \<open>
  C5. The claim: on every table with at least one row, the average rating that is
  reported equals the arithmetic mean of the \<open>Score\<close> column rounded to two decimals.
  As amended: when the script reaches the metrics (the upload parses, a \<open>Time\<close> column
  converts, the \<open>Text\<close> column exists) and the \<open>Score\<close> column holds numbers and
  missing values only, with at least one number, the metric \<open>Average Rating\<close> on the
  page is the mean of the ratings that are present, rounded to two decimals: a multiple
  of 0.01 at most 0.005 away from that mean (at a tie, either neighbour). With no rating
  present the metric is \<open>nan\<close>, and with a rating that is not a number the script stops
  at line 50; both are shown on sample uploads after the theorem.
\<close>

theorem average_rating_reported:
  assumes "pd_read_csv env file = Inr df" and "convert_time df = Inr d0"
    and "annotate env d0 = Inr d" and "getitem df ''Score'' = Inr ratings"
    and "list_all numeric ratings" and "[q. Num q \<leftarrow> ratings] \<noteq> []"
  shows "\<exists>k pos neg rest.
           fst (app env (Some file)) =
             [Title, SidebarHeader, FileUploader, Success (Loaded (nrows df)),
              DataPreview (head 10 df), Info Analyzing, Subheader,
              Metric ''Total Reviews'' (Count (nrows df)),
              Metric ''Average Rating'' (Mean (Finite (of_int k / 100))),
              Metric ''Positive (%)'' (Percent pos), Metric ''Negative (%)'' (Percent neg)]
             @ rest \<and>
           \<bar>of_int k / 100 -
             sum_list [q. Num q \<leftarrow> ratings] / of_nat (length [q. Num q \<leftarrow> ratings])\<bar>
             \<le> 1 / 200"
proof -
  let ?mu = "sum_list [q. Num q \<leftarrow> ratings] / of_nat (length [q. Num q \<leftarrow> ratings])"
  from assms(3) obtain texts where col: "getitem d0 ''Text'' = Inr texts"
    using annotate_InrD by blast
  have "getitem d0 ''Score'' = Inr ratings"
    using convert_time_other [OF assms(2), of "''Score''"] assms(4) by simp
  then have score: "getitem d ''Score'' = Inr ratings"
    using annotate_other_column [OF assms(3), of "''Score''"] by simp
  have sent: "getitem d ''sentiment'' =
      Inr (map (\<lambda>x. Str (sentiment_label (sentiment_score env x))) texts)"
    using col assms(3) by (rule annotate_label_column)
  have mu: "mean ratings = Inr (Finite ?mu)"
    using assms(5,6) by (rule mean_numeric)
  have rows: "nrows d = nrows df"
    using annotate_nrows [OF assms(3)] convert_time_nrows [OF assms(2)] by simp
  obtain m where m: "summary_metrics env d = Inr m"
    and avg: "avg_rating m = Finite (round_nd env 2 ?mu)"
    and tot: "total_reviews m = nrows df"
    by (simp add: summary_metrics_def Let_def score sent mu rows)
  define k where "k = rint (ties_up env 2 ?mu) (?mu * 10 ^ 2)"
  have grid: "round_nd env 2 ?mu = of_int k / 100"
    by (simp add: k_def round_nd_def)
  have "\<bar>round_nd env 2 ?mu - ?mu\<bar> \<le> 1 / 200"
    using round_nd_error [of env 2 ?mu] by simp
  then have err: "\<bar>of_int k / 100 - ?mu\<bar> \<le> 1 / 200"
    unfolding grid .
  have reported: "avg_rating m = Finite (of_int k / 100)"
    using avg unfolding grid .
  from app_until_metrics [OF assms(1-3) m]
  have "fst (app env (Some file)) =
     [Title, SidebarHeader, FileUploader, Success (Loaded (nrows df)),
      DataPreview (head 10 df), Info Analyzing, Subheader,
      Metric ''Total Reviews'' (Count (nrows df)),
      Metric ''Average Rating'' (Mean (Finite (of_int k / 100))),
      Metric ''Positive (%)'' (Percent (series_get (sentiment_pct m) (Str ''Positive'') 0)),
      Metric ''Negative (%)'' (Percent (series_get (sentiment_pct m) (Str ''Negative'') 0))]
     @ fst (and_then (show_breakdown d m) (\<lambda>_. show_trends env df d))"
    by (simp only: tot reported)
  with err show ?thesis
    by blast
qed

theorem average_rating_reported_witness:
  "pd_read_csv sample_env ''partly_rated.csv'' = Inr partly_rated_frame \<and>
   convert_time partly_rated_frame = Inr partly_rated_frame \<and>
   annotate sample_env partly_rated_frame =
     Inr (setitem
            (setitem partly_rated_frame ''sentiment_score''
               [Num (4 / 5), Num (- 1), Num (4 / 5)])
            ''sentiment'' [Str ''Positive'', Str ''Negative'', Str ''Positive'']) \<and>
   getitem partly_rated_frame ''Score'' = Inr [Num 5, NaN, Num 4] \<and>
   list_all numeric [Num 5, NaN, Num 4] \<and>
   [q. Num q \<leftarrow> [Num 5, NaN, Num 4]] = [5, 4] \<and>
   fst (app sample_env (Some ''partly_rated.csv'')) ! 8 =
     Metric ''Average Rating'' (Mean (Finite (9 / 2)))"
proof -
  have parsed: "pd_read_csv sample_env ''partly_rated.csv'' = Inr partly_rated_frame"
    by code_simp
  have conv: "convert_time partly_rated_frame = Inr partly_rated_frame"
    by code_simp
  have ann: "annotate sample_env partly_rated_frame =
     Inr (setitem
            (setitem partly_rated_frame ''sentiment_score''
               [Num (4 / 5), Num (- 1), Num (4 / 5)])
            ''sentiment'' [Str ''Positive'', Str ''Negative'', Str ''Positive''])"
    by code_simp
  have score: "getitem partly_rated_frame ''Score'' = Inr [Num 5, NaN, Num 4]"
    by code_simp
  have num: "list_all numeric [Num 5, NaN, Num 4]"
    by simp
  have present: "[q. Num q \<leftarrow> [Num 5, NaN, Num 4]] = [5, 4]"
    by simp
  then have some: "[q. Num q \<leftarrow> [Num 5, NaN, Num 4]] \<noteq> []"
    by simp
  from average_rating_reported [OF parsed conv ann score num some]
  obtain k where shown: "fst (app sample_env (Some ''partly_rated.csv'')) ! 8 =
      Metric ''Average Rating'' (Mean (Finite (of_int k / 100)))"
    and near: "\<bar>of_int k / 100 - (9 / 2 :: rat)\<bar> \<le> 1 / 200"
    by (auto simp: present)
  from near have "(449 :: rat) < of_int k" and "of_int k < (451 :: rat)"
    by linarith+
  then have "449 < k" and "k < 451"
    by linarith+
  then have "k = 450"
    by linarith
  with shown have "fst (app sample_env (Some ''partly_rated.csv'')) ! 8 =
      Metric ''Average Rating'' (Mean (Finite (9 / 2)))"
    by simp
  with parsed conv ann score num present show ?thesis
    by blast
qed

theorem average_rating_without_ratings:
  "0 < nrows unrated_frame \<and>
   pd_read_csv sample_env ''unrated.csv'' = Inr unrated_frame \<and>
   fst (app sample_env (Some ''unrated.csv'')) ! 8 = Metric ''Average Rating'' (Mean Nan) \<and>
   0 < nrows worded_frame \<and>
   pd_read_csv sample_env ''worded.csv'' = Inr worded_frame \<and>
   app sample_env (Some ''worded.csv'') =
     ([Title, SidebarHeader, FileUploader, Success (Loaded 1),
       DataPreview (head 10 worded_frame), Info Analyzing, Subheader],
      Inl TypeError)"
  by code_simp

subsection \<open>An upload without rows\<close>

text \<open>
  C8. The claim: for an upload with zero data rows the loader succeeds with 0 rows and
  the metrics are computed without an exception. As amended: for an upload that parses
  into a table without rows that has the \<open>Text\<close> and \<open>Score\<close> columns (a header line
  only), the page reports 0 reviews, and the metrics are computed and rendered without
  an exception: 0 reviews, an average rating of \<open>nan\<close>, no label counts, and 0 for both
  percentages shown. A file without any byte is refused by the parser, and a header
  without the \<open>Text\<close> column stops the script at line 39, before the metrics; both
  are shown on sample uploads after the theorem. The statement ends with the metrics:
  what the script does after them (\<open>rest\<close>) is not part of it, and on a header-only
  upload the script stops later, at line 92 without a \<open>Time\<close> column and at line 105
  with one.
\<close>

theorem zero_rows_metrics:
  assumes "pd_read_csv env file = Inr df" and "wf_frame df" and "nrows df = 0"
    and "has_column df ''Text''" and "has_column df ''Score''"
  shows "\<exists>d rest.
           convert_time df = Inr d \<and>
           (\<exists>a. annotate env d = Inr a \<and>
             summary_metrics env a =
               Inr \<lparr>total_reviews = 0, avg_rating = Nan, sentiment_counts = [],
                    sentiment_pct = []\<rparr>) \<and>
           fst (app env (Some file)) =
             [Title, SidebarHeader, FileUploader, Success (Loaded 0),
              DataPreview (head 10 df), Info Analyzing, Subheader,
              Metric ''Total Reviews'' (Count 0), Metric ''Average Rating'' (Mean Nan),
              Metric ''Positive (%)'' (Percent 0), Metric ''Negative (%)'' (Percent 0)] @ rest"
proof -
  from convert_time_empty [OF assms(2,3)] obtain d where
    d: "convert_time df = Inr d" and rows: "nrows d = 0" and
    same: "\<And>k. k \<noteq> ''date'' \<Longrightarrow> getitem d k = getitem df k"
    by blast
  have text_col: "getitem d ''Text'' = Inr []"
    using same [of "''Text''"] empty_column [OF assms(2,3,4)] by simp
  have score: "getitem d ''Score'' = Inr []"
    using same [of "''Score''"] empty_column [OF assms(2,3,5)] by simp
  let ?a = "setitem (setitem d ''sentiment_score'' []) ''sentiment'' []"
  have ann: "annotate env d = Inr ?a"
    using annotate_Inr [OF text_col, of env] by simp
  have a_score: "getitem ?a ''Score'' = Inr []"
    using score by (simp add: getitem_setitem_other)
  have a_sent: "getitem ?a ''sentiment'' = Inr []"
    by (simp add: getitem_setitem_same)
  have a_rows: "nrows ?a = 0"
    using rows by (simp add: nrows_setitem)
  let ?m = "\<lparr>total_reviews = 0, avg_rating = Nan, sentiment_counts = [], sentiment_pct = []\<rparr>"
  have metrics: "summary_metrics env ?a = Inr ?m"
    by (simp add: summary_metrics_def Let_def a_score a_sent a_rows mean_Nil value_counts_Nil
        percentages_def)
  let ?rest = "fst (and_then (show_breakdown ?a ?m) (\<lambda>_. show_trends env df ?a))"
  have load: "load df = ([Success (Loaded 0), DataPreview (head 10 df)], Inr d)"
    by (simp add: load_def and_then_render assms(3) d compute_def)
  have analyze: "analyze env d = ([Info Analyzing], Inr ?a)"
    by (simp add: analyze_def and_then_render ann compute_def)
  have shown: "show_metrics env ?a =
      ([Subheader, Metric ''Total Reviews'' (Count 0), Metric ''Average Rating'' (Mean Nan),
        Metric ''Positive (%)'' (Percent 0), Metric ''Negative (%)'' (Percent 0)], Inr ?m)"
    by (simp add: show_metrics_def and_then_def render_def compute_def metrics series_get_def)
  have "fst (dashboard env df) =
      [Success (Loaded 0), DataPreview (head 10 df), Info Analyzing,
       Subheader, Metric ''Total Reviews'' (Count 0), Metric ''Average Rating'' (Mean Nan),
       Metric ''Positive (%)'' (Percent 0), Metric ''Negative (%)'' (Percent 0)] @ ?rest"
    unfolding dashboard_def
    by (simp add: and_then_Inr load analyze shown)
  then have "fst (app env (Some file)) =
      [Title, SidebarHeader, FileUploader, Success (Loaded 0),
       DataPreview (head 10 df), Info Analyzing, Subheader,
       Metric ''Total Reviews'' (Count 0), Metric ''Average Rating'' (Mean Nan),
       Metric ''Positive (%)'' (Percent 0), Metric ''Negative (%)'' (Percent 0)] @ ?rest"
    by (simp add: app_def and_then_render assms(1) and_then_compute_Inr)
  with d ann metrics show ?thesis
    by blast
qed

theorem zero_rows_metrics_witness:
  "pd_read_csv sample_env ''header.csv'' = Inr header_only \<and>
   wf_frame header_only \<and> nrows header_only = 0 \<and>
   has_column header_only ''Text'' \<and> has_column header_only ''Score'' \<and>
   take 11 (fst (app sample_env (Some ''header.csv''))) =
     [Title, SidebarHeader, FileUploader, Success (Loaded 0),
      DataPreview (head 10 header_only), Info Analyzing, Subheader,
      Metric ''Total Reviews'' (Count 0), Metric ''Average Rating'' (Mean Nan),
      Metric ''Positive (%)'' (Percent 0), Metric ''Negative (%)'' (Percent 0)] \<and>
   snd (app sample_env (Some ''header.csv'')) = Inl ValueError"
proof -
  have parsed: "pd_read_csv sample_env ''header.csv'' = Inr header_only"
    by code_simp
  have wf: "wf_frame header_only"
    by (simp add: wf_frame_def header_only_def)
  have rows: "nrows header_only = 0"
    by (simp add: header_only_def)
  have text_col: "has_column header_only ''Text''"
    by (simp add: has_column_def header_only_def)
  have score_col: "has_column header_only ''Score''"
    by (simp add: has_column_def header_only_def)
  have later: "snd (app sample_env (Some ''header.csv'')) = Inl ValueError"
    by code_simp
  from zero_rows_metrics [OF parsed wf rows text_col score_col] obtain rest where
    "fst (app sample_env (Some ''header.csv'')) =
       [Title, SidebarHeader, FileUploader, Success (Loaded 0),
        DataPreview (head 10 header_only), Info Analyzing, Subheader,
        Metric ''Total Reviews'' (Count 0), Metric ''Average Rating'' (Mean Nan),
        Metric ''Positive (%)'' (Percent 0), Metric ''Negative (%)'' (Percent 0)] @ rest"
    by blast
  then show ?thesis
    using parsed wf rows text_col score_col later by simp
qed

theorem zero_row_uploads_that_fail:
  "app sample_env (Some []) = ([Title, SidebarHeader, FileUploader], Inl EmptyDataError) \<and>
   pd_read_csv sample_env ''header_without_text.csv'' = Inr header_without_text \<and>
   nrows header_without_text = 0 \<and>
   app sample_env (Some ''header_without_text.csv'') =
     ([Title, SidebarHeader, FileUploader, Success (Loaded 0),
       DataPreview (head 10 header_without_text), Info Analyzing],
      Inl (KeyError ''Text''))"
  by code_simp

end
